theory Spec2Isabelle
  imports Main
begin

section \<open>The books router (src/routes/books.js)\<close>

text \<open>
  The five handlers of the router read and change one collection, the array stored under
  the key \<open>books\<close> of the lowdb state \<open>req.app.db\<close>. The handlers are modelled as
  functions from the collection to the collection after the request and the \<open>res\<close>
  object after the request. What the handlers call on the lodash wrapper
  (\<open>find\<close>, \<open>assign\<close>, \<open>push\<close>, \<open>remove\<close>, \<open>value\<close>, \<open>write\<close>) and on the Express response
  (\<open>send\<close>, \<open>status\<close>, \<open>sendStatus\<close>) is library code; each is written out below as the
  library documents it.
\<close>

subsection \<open>JSON values and records\<close>

datatype json =
    JNull
  | JBool bool
  | JNum int
  | JStr string
  | JArr "json list"
  | JObj "(string \<times> json) list"

text \<open>
  A book is a JavaScript object as \<open>express.json()\<close> parses it: a finite map from
  property names to JSON values. The collection is the array of books in storage order.
  The handlers compare no value but the \<open>id\<close> property with the path parameter, a
  string; numbers are carried along and never inspected.
\<close>

type_synonym book = "string \<rightharpoonup> json"

text \<open>\<^verbatim>\<open>const idLength = 8;\<close>\<close>

definition idLength :: nat where
  "idLength = 8"

subsection \<open>The lodash operations the handlers chain\<close>

text \<open>
  The predicate \<^verbatim>\<open>{ id: req.params.id }\<close>: the shorthand of \<open>_.matches\<close>, true of an
  object whose \<open>id\<close> property is strictly equal to the path parameter, which is always a
  string.
\<close>

definition matches :: "string \<Rightarrow> book \<Rightarrow> bool" where
  "matches p b = (b ''id'' = Some (JStr p))"

text \<open>
  \<open>_.find\<close> is \<open>_.findIndex\<close> followed by the read of that element: the first element the
  predicate holds of, \<open>undefined\<close> when there is none. The index stands for the reference
  to the element that \<open>find\<close> hands to the next link of the chain.
\<close>

fun findIndex :: "('a \<Rightarrow> bool) \<Rightarrow> 'a list \<Rightarrow> nat option" where
  "findIndex P [] = None"
| "findIndex P (x # xs) = (if P x then Some 0 else map_option Suc (findIndex P xs))"

definition find_id :: "string \<Rightarrow> book list \<Rightarrow> nat option" where
  "find_id p bs = findIndex (matches p) bs"

text \<open>
  \<open>_.assign(target, source)\<close> copies the own properties of the source onto the target in
  place and returns the target. The target here is the element \<open>find\<close> returned, so the
  collection changes at that index; on \<open>undefined\<close> lodash assigns onto a new object
  (\<open>Object(undefined)\<close>), which is in no collection.
\<close>

definition assign :: "nat option \<Rightarrow> book \<Rightarrow> book list \<Rightarrow> book \<times> book list" where
  "assign target source bs =
     (case target of
        None \<Rightarrow> (Map.empty ++ source, bs)
      | Some i \<Rightarrow> (bs ! i ++ source, bs[i := bs ! i ++ source]))"

text \<open>\<open>push\<close> appends the element to the array.\<close>

definition push :: "book \<Rightarrow> book list \<Rightarrow> book list" where
  "push b bs = bs @ [b]"

text \<open>
  \<open>_.remove(array, predicate)\<close> walks the whole array, collects every element the predicate
  holds of, pulls them all out of the array, and returns the removed elements. The result
  is the pair of the removed elements and the array that is left.
\<close>

fun remove :: "('a \<Rightarrow> bool) \<Rightarrow> 'a list \<Rightarrow> 'a list \<times> 'a list" where
  "remove P [] = ([], [])"
| "remove P (x # xs) =
     (let (removed, rest) = remove P xs
      in if P x then (x # removed, rest) else (removed, x # rest))"

text \<open>
  \<open>write()\<close> runs the chain, then hands the state to the storage adapter and returns the
  value of the chain. The adapter may throw (the file cannot be written); that is the only
  exception the \<open>try\<close> blocks of the handlers can see. The outcome of the adapter is an input
  of the model: \<open>None\<close> when the file is written, \<open>Some e\<close> when the adapter throws \<open>e\<close>. The
  chain has run by then, so the collection in memory has changed in both cases.
\<close>

datatype error = StorageError string

definition db_write :: "error option \<Rightarrow> 'a \<Rightarrow> error + 'a" where
  "db_write fs v = (case fs of None \<Rightarrow> Inr v | Some e \<Rightarrow> Inl e)"

subsection \<open>The Express response object\<close>

text \<open>
  What a handler passes to \<open>res.send\<close>: \<open>undefined\<close>, a plain object, the status text that
  \<open>sendStatus\<close> sends, a caught exception, or a lodash wrapper that has not been resolved
  with \<open>value()\<close>: \<open>db.get("books")\<close> or \<open>db.get("books").find({ id })\<close>.
\<close>

datatype wrapper = GetBooks | FindBook string

datatype payload =
    Undefined
  | Obj book
  | Arr "book list"
  | StatusText nat
  | Err error
  | Wrapper wrapper

text \<open>
  The response object holds the status code (200 until a handler sets it) and the list of
  sends made on it, each with the status code in force at that moment.
\<close>

record res =
  statusCode :: nat
  sent :: "(nat \<times> payload) list"

definition res0 :: res where
  "res0 = \<lparr>statusCode = 200, sent = []\<rparr>"

definition status :: "nat \<Rightarrow> res \<Rightarrow> res" where
  "status code r = r\<lparr>statusCode := code\<rparr>"

definition send :: "payload \<Rightarrow> res \<Rightarrow> res" where
  "send x r = r\<lparr>sent := sent r @ [(statusCode r, x)]\<rparr>"

definition sendStatus :: "nat \<Rightarrow> res \<Rightarrow> res" where
  "sendStatus code r = send (StatusText code) (status code r)"

text \<open>
  Express serialises an object passed to \<open>send\<close> with \<open>JSON.stringify\<close>, which calls the
  \<open>toJSON\<close> method of the object when it has one. A lodash wrapper has one: it is
  \<open>value\<close>, which runs the chain on the collection as it is at that moment.
\<close>

fun toJSON :: "wrapper \<Rightarrow> book list \<Rightarrow> payload" where
  "toJSON GetBooks bs = Arr bs"
| "toJSON (FindBook p) bs =
     (case find_id p bs of None \<Rightarrow> Undefined | Some i \<Rightarrow> Obj (bs ! i))"

fun serialise :: "book list \<Rightarrow> payload \<Rightarrow> payload" where
  "serialise bs (Wrapper w) = toJSON w bs"
| "serialise bs x = x"

text \<open>
  The response the client receives is the first send: its status code and its serialised
  body. Every handler sends after its last change to the collection, so the collection the
  wrapper is resolved on is the collection after the request.
\<close>

definition response :: "book list \<times> res \<Rightarrow> (nat \<times> payload) option" where
  "response out =
     (case sent (snd out) of
        [] \<Rightarrow> None
      | (code, x) # _ \<Rightarrow> Some (code, serialise (fst out) x))"

subsection \<open>The handlers\<close>

text \<open>\<^verbatim>\<open>router.get("/")\<close>: sends the wrapper of the whole collection.\<close>

definition get_books :: "book list \<Rightarrow> book list \<times> res" where
  "get_books bs = (bs, send (Wrapper GetBooks) res0)"

text \<open>
  \<^verbatim>\<open>router.get("/:id")\<close>: resolves the first match; when there is none it calls
  \<open>sendStatus(404)\<close> and, with no \<open>return\<close>, goes on to \<open>res.send(book)\<close>.
\<close>

definition get_book :: "string \<Rightarrow> book list \<Rightarrow> book list \<times> res" where
  "get_book p bs =
     (let book = map_option (\<lambda>i. bs ! i) (find_id p bs);
          r = (if book = None then sendStatus 404 res0 else res0)
      in (bs, send (case book of None \<Rightarrow> Undefined | Some b \<Rightarrow> Obj b) r))"

text \<open>
  \<^verbatim>\<open>router.post("/")\<close>: \<^verbatim>\<open>{ id: nanoid(idLength), ...req.body }\<close> writes the generated
  token under \<open>id\<close> first and then spreads the body over it. The token \<open>nanoid\<close> returns is
  an input of the model.
\<close>

definition post_book :: "error option \<Rightarrow> string \<Rightarrow> book \<Rightarrow> book list \<Rightarrow> book list \<times> res" where
  "post_book fs token body bs =
     (let newBook = [''id'' \<mapsto> JStr token] ++ body;
          bs' = push newBook bs
      in case db_write fs bs' of
           Inr _ \<Rightarrow> (bs', send (Obj newBook) res0)
         | Inl e \<Rightarrow> (bs', send (Err e) (status 500 res0)))"

text \<open>
  \<^verbatim>\<open>router.put("/:id")\<close>: assigns the body onto the first match, writes, and sends the
  wrapper of a second \<open>find\<close> with the path id, without \<open>value()\<close>.
\<close>

definition put_book :: "error option \<Rightarrow> string \<Rightarrow> book \<Rightarrow> book list \<Rightarrow> book list \<times> res" where
  "put_book fs p body bs =
     (let (assigned, bs') = assign (find_id p bs) body bs
      in case db_write fs assigned of
           Inr _ \<Rightarrow> (bs', send (Wrapper (FindBook p)) res0)
         | Inl e \<Rightarrow> (bs', send (Err e) (status 500 res0)))"

text \<open>\<^verbatim>\<open>router.delete("/:id")\<close>: removes by the id predicate, writes, sends status 200.\<close>

definition delete_book :: "error option \<Rightarrow> string \<Rightarrow> book list \<Rightarrow> book list \<times> res" where
  "delete_book fs p bs =
     (let (removed, bs') = remove (matches p) bs
      in case db_write fs removed of
           Inr _ \<Rightarrow> (bs', sendStatus 200 res0)
         | Inl e \<Rightarrow> (bs', send (Err e) (status 500 res0)))"

subsection \<open>What the properties observe\<close>

text \<open>The \<open>id\<close> properties of the collection, in storage order, and their uniqueness.\<close>

definition ids :: "book list \<Rightarrow> json option list" where
  "ids bs = map (\<lambda>b. b ''id'') bs"

definition unique_ids :: "book list \<Rightarrow> bool" where
  "unique_ids bs = distinct (ids bs)"

text \<open>The number of elements of the array that List answers with.\<close>

definition list_count :: "book list \<Rightarrow> nat option" where
  "list_count bs =
     (case response (get_books bs) of Some (code, Arr xs) \<Rightarrow> Some (length xs) | _ \<Rightarrow> None)"

section \<open>Properties\<close>

subsection \<open>Facts about the lodash operations\<close>

lemma findIndex_None: "findIndex P xs = None \<longleftrightarrow> (\<forall>x \<in> set xs. \<not> P x)"
  by (induction xs) auto

lemma findIndex_Some:
  "findIndex P xs = Some i \<Longrightarrow> i < length xs \<and> P (xs ! i) \<and> (\<forall>j < i. \<not> P (xs ! j))"
proof (induction xs arbitrary: i)
  case Nil
  then show ?case by simp
next
  case (Cons x xs)
  show ?case
  proof (cases "P x")
    case True
    with Cons.prems show ?thesis by simp
  next
    case False
    with Cons.prems obtain k where k: "findIndex P xs = Some k" "i = Suc k"
      by auto
    from Cons.IH [OF k(1)] False k(2) show ?thesis
      by (auto simp: less_Suc_eq_0_disj)
  qed
qed

lemma findIndex_update:
  "findIndex P xs = Some i \<Longrightarrow> P y \<Longrightarrow> findIndex P (xs[i := y]) = Some i"
proof (induction xs arbitrary: i)
  case Nil
  then show ?case by simp
next
  case (Cons x xs)
  then show ?case by (cases "P x") auto
qed

lemma find_id_None: "find_id p bs = None \<longleftrightarrow> (\<forall>b \<in> set bs. \<not> matches p b)"
  by (simp add: find_id_def findIndex_None)

lemma find_id_Some:
  "find_id p bs = Some i \<Longrightarrow>
     i < length bs \<and> matches p (bs ! i) \<and> (\<forall>j < i. \<not> matches p (bs ! j))"
  unfolding find_id_def by (rule findIndex_Some)

lemma remove_filter: "remove P xs = (filter P xs, filter (\<lambda>x. \<not> P x) xs)"
  by (induction xs) auto

subsection \<open>The collection and the sends after each write request\<close>

lemma post_book_collection:
  "fst (post_book fs token body bs) = bs @ [[''id'' \<mapsto> JStr token] ++ body]"
  by (simp add: post_book_def push_def db_write_def Let_def split: option.split)

lemma put_book_collection:
  "fst (put_book fs p body bs) =
     (case find_id p bs of None \<Rightarrow> bs | Some i \<Rightarrow> bs[i := bs ! i ++ body])"
  by (simp add: put_book_def assign_def db_write_def split: option.split)

lemma delete_book_collection:
  "fst (delete_book fs p bs) = filter (\<lambda>b. \<not> matches p b) bs"
  by (simp add: delete_book_def remove_filter db_write_def split: option.split)

lemma put_book_sent:
  "sent (snd (put_book fs p body bs)) =
     (case fs of None \<Rightarrow> [(200, Wrapper (FindBook p))] | Some e \<Rightarrow> [(500, Err e)])"
  by (simp add: put_book_def assign_def db_write_def send_def status_def res0_def
      split: option.split)

lemma delete_book_sent:
  "sent (snd (delete_book fs p bs)) =
     (case fs of None \<Rightarrow> [(200, StatusText 200)] | Some e \<Rightarrow> [(500, Err e)])"
  by (simp add: delete_book_def remove_filter db_write_def send_def sendStatus_def status_def
      res0_def split: option.split)

lemma list_count_length: "list_count bs = Some (length bs)"
  by (simp add: list_count_def get_books_def response_def send_def res0_def)

subsection \<open>Reads leave the collection alone\<close>

text \<open>
  C10. List and Get-by-id never modify the stored collection: for every collection and
  every path id, the collection after the request is the collection before it.
\<close>

theorem reads_keep_collection:
  "fst (get_books bs) = bs \<and> fst (get_book p bs) = bs"
  by (simp add: get_books_def get_book_def Let_def)

subsection \<open>Create: where the id of the new record comes from\<close>

lemma post_book_generated_id:
  "body ''id'' = None \<Longrightarrow>
     last (fst (post_book fs token body bs)) ''id'' = Some (JStr token)"
  by (simp add: post_book_collection map_add_def)

lemma post_book_response:
  "response (post_book None token body bs) = Some (200, Obj ([''id'' \<mapsto> JStr token] ++ body))"
  by (simp add: post_book_def push_def db_write_def response_def send_def res0_def Let_def)

text \<open>
  C1. The claim is that the record Create stores and returns always carries the generated
  token as its id, also when the body has an id field. The handler spreads the body after
  the generated id, so the id of the body wins: on the empty collection, with the token
  \<open>V1StGXR8\<close> and the body \<^verbatim>\<open>{"id": "mine", "title": "Dune"}\<close>, the record stored and the
  record sent back are the body as it came, with the id \<open>mine\<close>.
\<close>

theorem post_book_id_from_body:
  "fst (post_book None ''V1StGXR8'' [''id'' \<mapsto> JStr ''mine'', ''title'' \<mapsto> JStr ''Dune''] []) =
     [[''id'' \<mapsto> JStr ''mine'', ''title'' \<mapsto> JStr ''Dune'']] \<and>
   response (post_book None ''V1StGXR8'' [''id'' \<mapsto> JStr ''mine'', ''title'' \<mapsto> JStr ''Dune''] []) =
     Some (200, Obj [''id'' \<mapsto> JStr ''mine'', ''title'' \<mapsto> JStr ''Dune'']) \<and>
   [''id'' \<mapsto> JStr ''mine'', ''title'' \<mapsto> JStr ''Dune''] ''id'' \<noteq> Some (JStr ''V1StGXR8'') \<and>
   length ''V1StGXR8'' = idLength"
  by (simp add: post_book_def push_def db_write_def response_def send_def res0_def idLength_def
      Let_def)

subsection \<open>Update: what is sent back\<close>

lemma put_book_response_when_id_kept:
  assumes "find_id p bs = Some i"
    and "body ''id'' = None \<or> body ''id'' = Some (JStr p)"
  shows "sent (snd (put_book None p body bs)) = [(200, Wrapper (FindBook p))] \<and>
         fst (put_book None p body bs) ! i = bs ! i ++ body \<and>
         response (put_book None p body bs) = Some (200, Obj (bs ! i ++ body))"
proof -
  from assms(1) have i: "i < length bs" and m: "matches p (bs ! i)"
    using find_id_Some by blast+
  from m assms(2) have m': "matches p (bs ! i ++ body)"
    by (auto simp: matches_def map_add_def)
  have coll: "fst (put_book None p body bs) = bs[i := bs ! i ++ body]"
    using assms(1) by (simp add: put_book_collection)
  have again: "find_id p (bs[i := bs ! i ++ body]) = Some i"
    using assms(1) m' by (simp add: find_id_def findIndex_update)
  have s: "sent (snd (put_book None p body bs)) = [(200, Wrapper (FindBook p))]"
    by (simp add: put_book_sent)
  show ?thesis
    using i coll again s by (simp add: response_def)
qed

text \<open>
  C2. The response of an Update on an existing id should carry the record as it is
  stored after the merge. The handler does not keep the record it merged: it looks the
  record up a second time, by the path id, and sends that lookup. When the body carries
  another id the merged record no longer answers to the path id. The record with id \<open>a\<close>
  updated with \<^verbatim>\<open>{"id": "b"}\<close> is stored with id \<open>b\<close>; the second lookup finds nothing and
  the response is 200 with an empty body. With a second record of id \<open>a\<close> behind it, the
  second lookup finds that one, and the response carries a record the request never
  touched.
\<close>

theorem put_book_response_misses_merged_record:
  "find_id ''a'' [[''id'' \<mapsto> JStr ''a'', ''title'' \<mapsto> JStr ''Dune'']] = Some 0 \<and>
   map (\<lambda>b. (b ''id'', b ''title''))
     (fst (put_book None ''a'' [''id'' \<mapsto> JStr ''b'']
            [[''id'' \<mapsto> JStr ''a'', ''title'' \<mapsto> JStr ''Dune'']])) =
     [(Some (JStr ''b''), Some (JStr ''Dune''))] \<and>
   response (put_book None ''a'' [''id'' \<mapsto> JStr ''b'']
          [[''id'' \<mapsto> JStr ''a'', ''title'' \<mapsto> JStr ''Dune'']]) =
     Some (200, Undefined) \<and>
   find_id ''a'' [[''id'' \<mapsto> JStr ''a'', ''title'' \<mapsto> JStr ''Dune''],
                  [''id'' \<mapsto> JStr ''a'', ''title'' \<mapsto> JStr ''Emma'']] = Some 0 \<and>
   map (\<lambda>b. (b ''id'', b ''title''))
     (fst (put_book None ''a'' [''id'' \<mapsto> JStr ''b'']
            [[''id'' \<mapsto> JStr ''a'', ''title'' \<mapsto> JStr ''Dune''],
             [''id'' \<mapsto> JStr ''a'', ''title'' \<mapsto> JStr ''Emma'']])) =
     [(Some (JStr ''b''), Some (JStr ''Dune'')), (Some (JStr ''a''), Some (JStr ''Emma''))] \<and>
   response (put_book None ''a'' [''id'' \<mapsto> JStr ''b'']
          [[''id'' \<mapsto> JStr ''a'', ''title'' \<mapsto> JStr ''Dune''],
           [''id'' \<mapsto> JStr ''a'', ''title'' \<mapsto> JStr ''Emma'']]) =
     Some (200, Obj [''id'' \<mapsto> JStr ''a'', ''title'' \<mapsto> JStr ''Emma''])"
  by (simp add: put_book_def assign_def find_id_def matches_def db_write_def response_def
      send_def res0_def)

subsection \<open>The ids of the collection\<close>

lemma ids_update:
  "i < length bs \<Longrightarrow> b ''id'' = (bs ! i) ''id'' \<Longrightarrow> ids (bs[i := b]) = ids bs"
  by (simp add: ids_def map_update list_update_same_conv)

lemma put_book_ids:
  assumes "body ''id'' = None \<or> body ''id'' = Some (JStr p)"
  shows "ids (fst (put_book fs p body bs)) = ids bs"
proof (cases "find_id p bs")
  case None
  then show ?thesis by (simp add: put_book_collection)
next
  case (Some i)
  then have i: "i < length bs" and m: "(bs ! i) ''id'' = Some (JStr p)"
    using find_id_Some [of p bs i] by (simp_all add: matches_def)
  from assms m have "(bs ! i ++ body) ''id'' = (bs ! i) ''id''"
    by (auto simp: map_add_def)
  with i Some show ?thesis
    by (simp add: put_book_collection ids_update)
qed

lemma post_book_ids:
  "body ''id'' = None \<Longrightarrow> ids (fst (post_book fs token body bs)) = ids bs @ [Some (JStr token)]"
  by (simp add: post_book_collection ids_def map_add_def)

lemma delete_book_ids:
  "ids (fst (delete_book fs p bs)) = filter (\<lambda>v. v \<noteq> Some (JStr p)) (ids bs)"
  by (simp add: delete_book_collection ids_def filter_map comp_def matches_def)

text \<open>
  Update assigns every field of the body, the id among them: in the collection of the
  records \<open>a\<close> and \<open>b\<close>, updating \<open>a\<close> with \<^verbatim>\<open>{"id": "b"}\<close> changes the id of the first
  record and leaves two records with the id \<open>b\<close>.
\<close>

theorem put_book_duplicates_id_counterexample:
  "unique_ids [[''id'' \<mapsto> JStr ''a''], [''id'' \<mapsto> JStr ''b'']] \<and>
   ids (fst (put_book None ''a'' [''id'' \<mapsto> JStr ''b'']
               [[''id'' \<mapsto> JStr ''a''], [''id'' \<mapsto> JStr ''b'']])) =
     [Some (JStr ''b''), Some (JStr ''b'')] \<and>
   \<not> unique_ids (fst (put_book None ''a'' [''id'' \<mapsto> JStr ''b'']
               [[''id'' \<mapsto> JStr ''a''], [''id'' \<mapsto> JStr ''b'']]))"
  by (simp add: unique_ids_def ids_def put_book_def assign_def find_id_def matches_def
      db_write_def)

text \<open>
  C3 (amended). Every operation keeps the id of every record it keeps, and keeps the ids
  unique, under these conditions: Update, when the body has no id field or has the path
  id as its id (the list of ids is then the same, position by position); Create, when the
  body has no id field (the ids before it stay, the token is added) and the token is not
  yet an id of the collection (the ids stay unique); Delete, List and Get-by-id, always
  (Delete drops the ids equal to the path id and keeps the others in order).
\<close>

theorem ids_kept_unless_body_sets_id:
  "(body ''id'' = None \<or> body ''id'' = Some (JStr p) \<longrightarrow>
      ids (fst (put_book fs p body bs)) = ids bs) \<and>
   (body ''id'' = None \<longrightarrow>
      ids (fst (post_book fs token body bs)) = ids bs @ [Some (JStr token)]) \<and>
   (body ''id'' = None \<and> Some (JStr token) \<notin> set (ids bs) \<and> unique_ids bs \<longrightarrow>
      unique_ids (fst (post_book fs token body bs))) \<and>
   ids (fst (delete_book fs p bs)) = filter (\<lambda>v. v \<noteq> Some (JStr p)) (ids bs) \<and>
   (unique_ids bs \<longrightarrow> unique_ids (fst (delete_book fs p bs))) \<and>
   ids (fst (get_books bs)) = ids bs \<and>
   ids (fst (get_book p bs)) = ids bs"
proof -
  have del: "unique_ids bs \<longrightarrow> unique_ids (fst (delete_book fs p bs))"
    by (simp add: unique_ids_def delete_book_ids)
  have new: "body ''id'' = None \<and> Some (JStr token) \<notin> set (ids bs) \<and> unique_ids bs \<longrightarrow>
      unique_ids (fst (post_book fs token body bs))"
    by (simp add: unique_ids_def post_book_ids)
  have rd: "ids (fst (get_books bs)) = ids bs \<and> ids (fst (get_book p bs)) = ids bs"
    by (simp add: get_books_def get_book_def Let_def)
  from del new rd show ?thesis
    by (simp add: put_book_ids post_book_ids delete_book_ids)
qed

theorem ids_kept_unless_body_sets_id_witness:
  "[''title'' \<mapsto> JStr ''Emma''] ''id'' = None \<and>
   Some (JStr ''V1StGXR8'') \<notin> set (ids [[''id'' \<mapsto> JStr ''a''], [''id'' \<mapsto> JStr ''b'']]) \<and>
   unique_ids [[''id'' \<mapsto> JStr ''a''], [''id'' \<mapsto> JStr ''b'']] \<and>
   ids (fst (put_book None ''a'' [''title'' \<mapsto> JStr ''Emma'']
               [[''id'' \<mapsto> JStr ''a''], [''id'' \<mapsto> JStr ''b'']])) =
     [Some (JStr ''a''), Some (JStr ''b'')] \<and>
   ids (fst (post_book None ''V1StGXR8'' [''title'' \<mapsto> JStr ''Emma'']
               [[''id'' \<mapsto> JStr ''a''], [''id'' \<mapsto> JStr ''b'']])) =
     [Some (JStr ''a''), Some (JStr ''b''), Some (JStr ''V1StGXR8'')] \<and>
   unique_ids (fst (post_book None ''V1StGXR8'' [''title'' \<mapsto> JStr ''Emma'']
               [[''id'' \<mapsto> JStr ''a''], [''id'' \<mapsto> JStr ''b'']])) \<and>
   ids (fst (delete_book None ''a'' [[''id'' \<mapsto> JStr ''a''], [''id'' \<mapsto> JStr ''b'']])) =
     [Some (JStr ''b'')] \<and>
   unique_ids (fst (delete_book None ''a'' [[''id'' \<mapsto> JStr ''a''], [''id'' \<mapsto> JStr ''b'']]))"
proof -
  have h: "[''title'' \<mapsto> JStr ''Emma''] ''id'' = None \<and>
      Some (JStr ''V1StGXR8'') \<notin> set (ids [[''id'' \<mapsto> JStr ''a''], [''id'' \<mapsto> JStr ''b'']]) \<and>
      unique_ids [[''id'' \<mapsto> JStr ''a''], [''id'' \<mapsto> JStr ''b'']]"
    by (simp add: ids_def unique_ids_def)
  have v: "ids [[''id'' \<mapsto> JStr ''a''], [''id'' \<mapsto> JStr ''b'']] =
      [Some (JStr ''a''), Some (JStr ''b'')]"
    by (simp add: ids_def)
  from h v
    ids_kept_unless_body_sets_id [where body = "[''title'' \<mapsto> JStr ''Emma'']" and p = "''a''"
      and token = "''V1StGXR8''" and fs = None
      and bs = "[[''id'' \<mapsto> JStr ''a''], [''id'' \<mapsto> JStr ''b'']]"]
  show ?thesis
    by simp
qed

subsection \<open>Get-by-id on an id that is not there\<close>

lemma get_book_missing_sent:
  "find_id p bs = None \<Longrightarrow>
     sent (snd (get_book p bs)) = [(404, StatusText 404), (404, Undefined)]"
  by (simp add: get_book_def sendStatus_def send_def status_def res0_def)

text \<open>
  On the empty collection the handler calls \<open>sendStatus(404)\<close>, which sends the status text
  as the body, and then \<open>send(undefined)\<close>: two sends, and the body of the first is not
  empty.
\<close>

theorem get_book_missing_counterexample:
  "find_id ''nonexistent-id'' [] = None \<and>
   get_book ''nonexistent-id'' [] =
     ([], \<lparr>statusCode = 404, sent = [(404, StatusText 404), (404, Undefined)]\<rparr>) \<and>
   length (sent (snd (get_book ''nonexistent-id'' []))) = 2 \<and>
   response (get_book ''nonexistent-id'' []) = Some (404, StatusText 404)"
  by (simp add: get_book_def find_id_def sendStatus_def send_def status_def res0_def
      response_def)

text \<open>
  C4 (amended). For every Get-by-id request whose id matches no record, the response the
  client receives has the status 404, and its body is the status text that
  \<open>sendStatus\<close> sends.
\<close>

theorem get_book_missing_id:
  assumes "find_id p bs = None"
  shows "response (get_book p bs) = Some (404, StatusText 404)"
  using assms
  by (simp add: get_book_def sendStatus_def send_def status_def res0_def response_def)

theorem get_book_missing_id_witness:
  "find_id ''nonexistent-id'' [[''id'' \<mapsto> JStr ''a'', ''title'' \<mapsto> JStr ''Dune'']] = None \<and>
   response (get_book ''nonexistent-id'' [[''id'' \<mapsto> JStr ''a'', ''title'' \<mapsto> JStr ''Dune'']]) =
     Some (404, StatusText 404)"
proof -
  have f: "find_id ''nonexistent-id'' [[''id'' \<mapsto> JStr ''a'', ''title'' \<mapsto> JStr ''Dune'']] = None"
    by (simp add: find_id_def matches_def)
  from get_book_missing_id [OF f] f show ?thesis
    by simp
qed

subsection \<open>Update: what is stored\<close>

text \<open>
  C5. For every Update request on an existing id, whatever the write to storage does
  afterwards: the first record with that id, at index \<open>i\<close>, is replaced by its shallow merge
  with the body. Every field the body has takes the value of the body, every other field
  keeps the value it had, and no other record changes.
\<close>

theorem put_book_shallow_merge:
  assumes "find_id p bs = Some i"
  shows "i < length bs \<and> matches p (bs ! i) \<and> (\<forall>j < i. \<not> matches p (bs ! j)) \<and>
         length (fst (put_book fs p body bs)) = length bs \<and>
         (\<forall>k. (fst (put_book fs p body bs) ! i) k =
                (case body k of Some v \<Rightarrow> Some v | None \<Rightarrow> (bs ! i) k)) \<and>
         (\<forall>j < length bs. j \<noteq> i \<longrightarrow> fst (put_book fs p body bs) ! j = bs ! j)"
proof -
  from assms
  have first: "i < length bs \<and> matches p (bs ! i) \<and> (\<forall>j < i. \<not> matches p (bs ! j))"
    by (rule find_id_Some)
  have coll: "fst (put_book fs p body bs) = bs[i := bs ! i ++ body]"
    using assms by (simp add: put_book_collection)
  have merged:
    "\<forall>k. (bs ! i ++ body) k = (case body k of Some v \<Rightarrow> Some v | None \<Rightarrow> (bs ! i) k)"
    by (simp add: map_add_def)
  from first coll merged show ?thesis
    by simp
qed

theorem put_book_shallow_merge_witness:
  "find_id ''a''
     [[''id'' \<mapsto> JStr ''z''],
      [''id'' \<mapsto> JStr ''a'', ''title'' \<mapsto> JStr ''Dune'', ''author'' \<mapsto> JStr ''Herbert'']] = Some 1 \<and>
   map (\<lambda>k. (fst (put_book None ''a''
                    [''author'' \<mapsto> JStr ''Frank Herbert'', ''year'' \<mapsto> JNum 1965]
                    [[''id'' \<mapsto> JStr ''z''],
                     [''id'' \<mapsto> JStr ''a'', ''title'' \<mapsto> JStr ''Dune'',
                      ''author'' \<mapsto> JStr ''Herbert'']]) ! 1) k)
      [''id'', ''title'', ''author'', ''year'', ''pages''] =
     [Some (JStr ''a''), Some (JStr ''Dune''), Some (JStr ''Frank Herbert''),
      Some (JNum 1965), None]"
proof -
  have f: "find_id ''a''
      [[''id'' \<mapsto> JStr ''z''],
       [''id'' \<mapsto> JStr ''a'', ''title'' \<mapsto> JStr ''Dune'', ''author'' \<mapsto> JStr ''Herbert'']] = Some 1"
    by (simp add: find_id_def matches_def)
  from put_book_shallow_merge
         [where body = "[''author'' \<mapsto> JStr ''Frank Herbert'', ''year'' \<mapsto> JNum 1965]"
            and fs = None, OF f] f
  show ?thesis
    by simp
qed

subsection \<open>Update on an id that is not there\<close>

text \<open>
  C6. For every Update request whose id matches no record, the collection after the
  request is the collection before it, and no 404 is produced: the status code of the
  response object is not 404 and no send carries it. The response is 200 with an empty
  body, or 500 with the exception when the write to storage throws.
\<close>

theorem put_book_missing_id:
  assumes "find_id p bs = None"
  shows "fst (put_book fs p body bs) = bs \<and>
         statusCode (snd (put_book fs p body bs)) \<noteq> 404 \<and>
         404 \<notin> fst ` set (sent (snd (put_book fs p body bs))) \<and>
         response (put_book fs p body bs) =
           (case fs of None \<Rightarrow> Some (200, Undefined) | Some e \<Rightarrow> Some (500, Err e))"
  using assms
  by (simp add: put_book_def assign_def db_write_def send_def status_def res0_def response_def
      split: option.split)

theorem put_book_missing_id_witness:
  "find_id ''nonexistent-id'' [[''id'' \<mapsto> JStr ''a'', ''title'' \<mapsto> JStr ''Dune'']] = None \<and>
   map (\<lambda>b. (b ''id'', b ''title''))
     (fst (put_book None ''nonexistent-id'' [''title'' \<mapsto> JStr ''Emma'']
        [[''id'' \<mapsto> JStr ''a'', ''title'' \<mapsto> JStr ''Dune'']])) =
     [(Some (JStr ''a''), Some (JStr ''Dune''))] \<and>
   response (put_book None ''nonexistent-id'' [''title'' \<mapsto> JStr ''Emma'']
        [[''id'' \<mapsto> JStr ''a'', ''title'' \<mapsto> JStr ''Dune'']]) = Some (200, Undefined)"
proof -
  have f: "find_id ''nonexistent-id'' [[''id'' \<mapsto> JStr ''a'', ''title'' \<mapsto> JStr ''Dune'']] = None"
    by (simp add: find_id_def matches_def)
  from put_book_missing_id [where body = "[''title'' \<mapsto> JStr ''Emma'']" and fs = None, OF f] f
  show ?thesis
    by simp
qed

subsection \<open>Delete on an id that is not there\<close>

text \<open>
  The handler writes to storage also when nothing was removed. A write that throws is the
  failure case of every write request, whatever the id: the \<open>catch\<close> branch answers 500
  with the exception.
\<close>

lemma delete_book_write_throws:
  "response (delete_book (Some e) p bs) = Some (500, Err e)"
  by (simp add: delete_book_sent response_def)

text \<open>
  C7. For every Delete request whose id matches no record, the response is HTTP 200, the
  collection is unchanged, and no error is produced: the one send of the handler is the
  status 200. The collection is unchanged also when the write to storage throws.
\<close>

theorem delete_book_missing_id:
  assumes "find_id p bs = None"
  shows "fst (delete_book fs p bs) = bs \<and>
         sent (snd (delete_book None p bs)) = [(200, StatusText 200)] \<and>
         response (delete_book None p bs) = Some (200, StatusText 200)"
proof -
  from assms have "\<forall>b \<in> set bs. \<not> matches p b"
    by (simp add: find_id_None)
  then have "filter (\<lambda>b. \<not> matches p b) bs = bs"
    by (simp add: filter_id_conv)
  then show ?thesis
    by (simp add: delete_book_collection delete_book_sent response_def)
qed

theorem delete_book_missing_id_witness:
  "find_id ''nonexistent-id'' [[''id'' \<mapsto> JStr ''a'', ''title'' \<mapsto> JStr ''Dune'']] = None \<and>
   map (\<lambda>b. (b ''id'', b ''title''))
     (fst (delete_book None ''nonexistent-id''
        [[''id'' \<mapsto> JStr ''a'', ''title'' \<mapsto> JStr ''Dune'']])) =
     [(Some (JStr ''a''), Some (JStr ''Dune''))] \<and>
   response (delete_book None ''nonexistent-id''
        [[''id'' \<mapsto> JStr ''a'', ''title'' \<mapsto> JStr ''Dune'']]) =
     Some (200, StatusText 200)"
proof -
  have f: "find_id ''nonexistent-id'' [[''id'' \<mapsto> JStr ''a'', ''title'' \<mapsto> JStr ''Dune'']] = None"
    by (simp add: find_id_def matches_def)
  from delete_book_missing_id [where fs = None, OF f] f
  show ?thesis
    by simp
qed

subsection \<open>Delete: which records go\<close>

text \<open>
  With two records of id \<open>a\<close> around a record of id \<open>b\<close>, Delete of \<open>a\<close> leaves the record
  \<open>b\<close> alone: the later record with the id \<open>a\<close> is removed as well.
\<close>

theorem delete_book_later_duplicate_counterexample:
  "map (\<lambda>b. (b ''id'', b ''title''))
     (fst (delete_book None ''a''
        [[''id'' \<mapsto> JStr ''a'', ''title'' \<mapsto> JStr ''first''],
         [''id'' \<mapsto> JStr ''b'', ''title'' \<mapsto> JStr ''other''],
         [''id'' \<mapsto> JStr ''a'', ''title'' \<mapsto> JStr ''second'']])) =
     [(Some (JStr ''b''), Some (JStr ''other''))]"
  by (simp add: delete_book_def matches_def db_write_def)

text \<open>
  C8 (amended). For every Delete request, every record whose id matches the path id is
  removed, the first and any later one; the records with another id all remain, in
  storage order.
\<close>

theorem delete_book_removes_every_match:
  "fst (delete_book fs p bs) = filter (\<lambda>b. \<not> matches p b) bs \<and>
   filter (matches p) (fst (delete_book fs p bs)) = []"
proof -
  have "remove (matches p) bs = (filter (matches p) bs, filter (\<lambda>b. \<not> matches p b) bs)"
    by (induction bs) auto
  then have "fst (delete_book fs p bs) = filter (\<lambda>b. \<not> matches p b) bs"
    by (simp add: delete_book_def db_write_def split: option.split)
  then show ?thesis
    by simp
qed

subsection \<open>The count List returns\<close>

text \<open>
  C9. After a Create the count List returns is one greater than before it; after a
  Delete of an id that exactly one record of the collection has, it is one smaller. Both
  hold of the collection in memory whether or not the write to storage throws, so they hold
  after a successful request.
\<close>

theorem list_count_create_delete:
  "list_count (fst (post_book fs token body bs)) = map_option Suc (list_count bs) \<and>
   (length (filter (matches p) bs) = 1 \<longrightarrow>
      map_option Suc (list_count (fst (delete_book fs p bs))) = list_count bs) \<and>
   list_count bs \<noteq> None"
proof -
  have "length (filter (\<lambda>b. \<not> matches p b) bs) + length (filter (matches p) bs) = length bs"
    using sum_length_filter_compl [of "matches p" bs] by simp
  then show ?thesis
    by (auto simp: list_count_length post_book_collection delete_book_collection)
qed

theorem list_count_create_delete_witness:
  "length (filter (matches ''a'') [[''id'' \<mapsto> JStr ''a''], [''id'' \<mapsto> JStr ''b'']]) = 1 \<and>
   list_count [[''id'' \<mapsto> JStr ''a''], [''id'' \<mapsto> JStr ''b'']] = Some 2 \<and>
   list_count (fst (post_book None ''V1StGXR8'' [''title'' \<mapsto> JStr ''Emma'']
       [[''id'' \<mapsto> JStr ''a''], [''id'' \<mapsto> JStr ''b'']])) = Some 3 \<and>
   list_count (fst (delete_book None ''a''
       [[''id'' \<mapsto> JStr ''a''], [''id'' \<mapsto> JStr ''b'']])) = Some 1"
proof -
  have one: "length (filter (matches ''a'') [[''id'' \<mapsto> JStr ''a''], [''id'' \<mapsto> JStr ''b'']]) = 1"
    by (simp add: matches_def)
  have two: "list_count [[''id'' \<mapsto> JStr ''a''], [''id'' \<mapsto> JStr ''b'']] = Some 2"
    by (simp add: list_count_def get_books_def response_def send_def res0_def)
  from one two
    list_count_create_delete [where fs = None and token = "''V1StGXR8''" and p = "''a''"
      and body = "[''title'' \<mapsto> JStr ''Emma'']"
      and bs = "[[''id'' \<mapsto> JStr ''a''], [''id'' \<mapsto> JStr ''b'']]"]
  show ?thesis
    by auto
qed

end
